theory Spec2Isabelle
  imports Complex_Main
begin

section \<open>OptimiR: the pipeline driver \<open>optimir/main.py\<close>\<close>

text \<open>
  The driver \<open>main()\<close> parses the command line, checks that the input files exist,
  derives the sample name and the working directories, and then runs the stages
  library preparation, trimming, collapsing, mapping and post-processing in sequence.
  The stages themselves live in \<open>optimir.libs\<close>; the driver only calls them. They
  are therefore parameters of the model (the record \<open>env\<close>), acting on an abstract
  world \<open>'w\<close> (file system and processes). What the driver itself prints, the shell
  commands it issues and the stage calls it makes are recorded, in order, as a trace.
\<close>

subsection \<open>Python string helpers\<close>

text \<open>\<open>s.split(sep)\<close> for a one-character separator: never the empty list.\<close>

fun str_split :: "char \<Rightarrow> string \<Rightarrow> string list" where
  "str_split sep [] = [[]]"
| "str_split sep (c # cs) =
     (if c = sep then [] # str_split sep cs
      else (case str_split sep cs of
              x # xs \<Rightarrow> (c # x) # xs
            | [] \<Rightarrow> [[c]]))"

text \<open>\<open>os.path.basename(p)\<close> (posixpath): \<open>p[p.rfind('/') + 1:]\<close>.\<close>

definition basename :: "string \<Rightarrow> string" where
  "basename p = rev (takeWhile (\<lambda>c. c \<noteq> CHR ''/'') (rev p))"

subsection \<open>Command-line arguments\<close>

text \<open>
  The namespace returned by \<open>parser.parse_args()\<close>, one field per \<open>dest\<close>.
  \<open>--fq\<close> is required, so \<open>FASTQ\<close> is always a string; \<open>--vcf\<close> defaults to
  \<open>None\<close>. The float option \<open>--consistentRate\<close> is kept as a rational.
\<close>

record args =
  FASTQ :: string
  OUTDIR :: string
  VCF :: "string option"
  SEEDLEN :: int
  WEIGHT5 :: int
  SCORE_THRESH :: int
  INCONSISTENT_THRESHOLD :: rat
  RMTEMP :: bool
  ANNOT_FILES :: string
  WRITE_GFF :: bool
  WRITE_VCF :: bool
  ADAPT3 :: string
  ADAPT5 :: string
  READMIN :: int
  READMAX :: int
  BQTHRESH :: int
  TRIM_AGAIN :: bool
  MATURES :: string
  HAIRPINS :: string
  GFF3 :: string
  VERBOSE :: bool
  CUTADAPT :: string
  BOWTIE2 :: string
  BOWTIE2_BUILD :: string
  SAMTOOLS :: string

text \<open>
  The namespace for a command line that gives only \<open>--fq fq\<close>: every other field
  takes the \<open>default=\<close> of its \<open>add_argument\<close> (lines 38--71).
\<close>

definition default_args :: "string \<Rightarrow> string \<Rightarrow> args" where
  "default_args optimiR_path fq =
     \<lparr> FASTQ = fq,
       OUTDIR = ''./OptimiR/'',
       VCF = None,
       SEEDLEN = 17,
       WEIGHT5 = 4,
       SCORE_THRESH = 9,
       INCONSISTENT_THRESHOLD = 1 / 100,
       RMTEMP = False,
       ANNOT_FILES = ''hpics'',
       WRITE_GFF = False,
       WRITE_VCF = False,
       ADAPT3 = ''AGATCGGAAGAGCACACGTCTGAACTCCAGTCAC -a TGGAATTCTCGGGTGCCAAGG'',
       ADAPT5 = ''ATCTACACGTTCAGAGTTCTACAGTCCGACGATC'',
       READMIN = 15,
       READMAX = 27,
       BQTHRESH = 28,
       TRIM_AGAIN = False,
       MATURES = optimiR_path @ ''/resources/fasta/hsa_matures_miRBase_v21.fa'',
       HAIRPINS = optimiR_path @ ''/resources/fasta/hsa_hairpins_miRBase_v21.fa'',
       GFF3 = optimiR_path @ ''/resources/coordinates/hsa_miRBase_v21.gff3'',
       VERBOSE = True,
       CUTADAPT = ''cutadapt'',
       BOWTIE2 = ''bowtie2'',
       BOWTIE2_BUILD = ''bowtie2-build'',
       SAMTOOLS = ''samtools'' \<rparr>"

subsection \<open>Collaborators and trace\<close>

text \<open>
  The tuple unpickled by \<open>load_obj(lib_infos_pickle_path)\<close> (line 152).
\<close>

record lib_infos =
  VCF_AVAILABLE :: bool
  GENO_AVAILABLE :: bool
  sample_list :: "string list"
  fasta_hash :: string
  vcf_hash :: string

text \<open>The sixteen arguments of the call \<open>post_process_main(...)\<close> (line 186),
  except \<open>collapse_table\<close>, which is passed beside the record.\<close>

record pp_args =
  pp_tmpdir_mapping :: string
  pp_tmpdir_postProcess :: string
  pp_dir_results :: string
  pp_sample_name :: string
  pp_WEIGHT5 :: int
  pp_SCORE_THRESHOLD :: int
  pp_INCONSISTENT_THRESHOLD :: rat
  pp_d_OptimiR_pickle_path :: string
  pp_VCF_AVAILABLE :: bool
  pp_GENO_AVAILABLE :: bool
  pp_ANNOT_FILES :: string
  pp_VERBOSE :: bool
  pp_WRITE_GFF :: bool
  pp_WRITE_VCF :: bool
  pp_sourceDB :: string

text \<open>
  What the driver does that is visible from outside, in order: \<open>print(s)\<close>,
  \<open>fun_str_progress(_, tag, VERBOSE)\<close> (its timing payload is left out),
  \<open>subprocess.call(cmd, shell=True)\<close>, and the calls of the five stages.
\<close>

datatype event =
    Print string
  | Progress string bool
  | Shell string
  | Call_prepare_library "string option"
  | Call_trimming string
  | Call_collapsing string
  | Call_mapping string
  | Call_post_process pp_args

text \<open>
  The environment of a run. A stage returns the world it leaves behind and either
  \<open>Inl msg\<close>, when it raised \<open>Except_OS_Pipe(msg)\<close>, or \<open>Inr\<close> its result.
  \<open>file_exists\<close> is the test made by \<open>check_if_file_exists\<close>, \<open>path_exists\<close>
  is \<open>os.path.exists\<close>; \<open>shell\<close> is the effect of a shell command, whose exit
  status the driver ignores. \<open>load_obj\<close> and \<open>fun_str_progress\<close> are taken
  not to raise. The type \<open>'c\<close> is the collapse table; the collapse report, which
  the driver never reads, is left out.
\<close>

record ('w, 'c) env =
  file_exists :: "'w \<Rightarrow> string \<Rightarrow> bool"
  path_exists :: "'w \<Rightarrow> string \<Rightarrow> bool"
  abspath :: "string \<Rightarrow> string"
  shell :: "string \<Rightarrow> 'w \<Rightarrow> 'w"
  prepare_library :: "string \<Rightarrow> string option \<Rightarrow> string \<Rightarrow> string \<Rightarrow> string \<Rightarrow> string \<Rightarrow>
                      string \<Rightarrow> string \<Rightarrow> string \<Rightarrow> string \<Rightarrow> 'w \<Rightarrow> (string + unit) \<times> 'w"
  load_obj :: "string \<Rightarrow> 'w \<Rightarrow> lib_infos"
  trimming :: "string \<Rightarrow> string \<Rightarrow> string \<Rightarrow> string \<Rightarrow> string \<Rightarrow> string \<Rightarrow>
               int \<Rightarrow> int \<Rightarrow> int \<Rightarrow> 'w \<Rightarrow> (string + unit) \<times> 'w"
  collapsing :: "string \<Rightarrow> string \<Rightarrow> string \<Rightarrow> 'w \<Rightarrow> (string + 'c) \<times> 'w"
  mapping :: "string \<Rightarrow> string \<Rightarrow> string \<Rightarrow> string \<Rightarrow> int \<Rightarrow> string \<Rightarrow> string \<Rightarrow> string \<Rightarrow>
              'w \<Rightarrow> (string + unit) \<times> 'w"
  post_process_main :: "pp_args \<Rightarrow> 'c \<Rightarrow> 'w \<Rightarrow> (string + unit) \<times> 'w"

text \<open>How a run ends: normally, by \<open>sys.exit(n)\<close>, or with an uncaught exception.\<close>

datatype outcome = Completed | Exit int | Uncaught string

subsection \<open>Input checks (lines 101--116)\<close>

datatype InputError = InputError (input_name: string)

text \<open>
  Modelled from the spec: \<open>check_if_file_exists\<close> and \<open>InputError\<close> are defined in
  \<open>optimir.libs.essentials\<close>, which is not among the sources. The driver's handler
  reads \<open>err.input_name\<close>; the spec says "InputError: a required input path does not
  exist ... reported with the offending path".
\<close>

definition check_if_file_exists :: "('w, 'c) env \<Rightarrow> 'w \<Rightarrow> string \<Rightarrow> InputError + unit" where
  "check_if_file_exists e w p = (if file_exists e w p then Inr () else Inl (InputError p))"

text \<open>The paths checked, in the order of lines 108--112; the VCF only when given.\<close>

definition required_paths :: "args \<Rightarrow> string list" where
  "required_paths a =
     (case VCF a of None \<Rightarrow> [] | Some v \<Rightarrow> [v]) @ [MATURES a, HAIRPINS a, GFF3 a, FASTQ a]"

text \<open>The checks run in sequence; the first failing one raises.\<close>

fun check_all :: "('w, 'c) env \<Rightarrow> 'w \<Rightarrow> string list \<Rightarrow> InputError + unit" where
  "check_all e w [] = Inr ()"
| "check_all e w (p # ps) =
     (case check_if_file_exists e w p of
        Inl err \<Rightarrow> Inl err
      | Inr _ \<Rightarrow> check_all e w ps)"

definition no_vcf_warning :: string where
  "no_vcf_warning = ''WARNING: no variant provided, thus no VCF output will be generated\<newline>''"

text \<open>
  The body of the first \<open>try\<close>: what it prints, the value of \<open>WRITE_VCF\<close> it leaves,
  and whether a check raised. With no VCF the local \<open>VCF_AVAIL\<close> is set and never
  read again; \<open>WRITE_VCF\<close> is switched off with a warning.
\<close>

definition check_inputs :: "('w, 'c) env \<Rightarrow> args \<Rightarrow> 'w \<Rightarrow> event list \<times> bool \<times> (InputError + unit)" where
  "check_inputs e a w =
     (if VCF a = None \<and> WRITE_VCF a
      then ([Print no_vcf_warning], False, check_all e w (required_paths a))
      else ([], WRITE_VCF a, check_all e w (required_paths a)))"

definition input_error_message :: "InputError \<Rightarrow> string" where
  "input_error_message err =
     ''ERROR during library preparation: file '' @ input_name err @
     '' does not exists. Check input filename and try again.\<newline>''"

subsection \<open>The stages of the main process (lines 126--195)\<close>

text \<open>Lines 130--131: the sample name is the basename up to its first dot.\<close>

definition sample_name_of :: "string \<Rightarrow> string" where
  "sample_name_of fastq = hd (str_split CHR ''.'' (basename fastq))"

text \<open>Line 185: \<open>MATURES.split('/')[-1].split('.')[0]\<close>.\<close>

definition sourceDB_of :: "string \<Rightarrow> string" where
  "sourceDB_of matures = hd (str_split CHR ''.'' (last (str_split CHR ''/'' matures)))"

text \<open>
  Statements inside the second \<open>try\<close> run in sequence, and a raised
  \<open>Except_OS_Pipe\<close> skips everything after it: the trace and the world reached
  so far are kept, and the rest is not run.
\<close>

definition and_then ::
  "event list \<times> 'w \<times> (string + 'a) \<Rightarrow> ('a \<Rightarrow> 'w \<Rightarrow> event list \<times> 'w \<times> (string + 'b)) \<Rightarrow>
   event list \<times> 'w \<times> (string + 'b)" where
  "and_then r f =
     (case r of
        (t, w, Inl msg) \<Rightarrow> (t, w, Inl msg)
      | (t, w, Inr x) \<Rightarrow> (case f x w of (t', w', r') \<Rightarrow> (t @ t', w', r')))"

definition sample_mismatch_warning :: "string \<Rightarrow> string" where
  "sample_mismatch_warning sample_name =
     ''WARNING : Sample provided '' @ sample_name @
     '' does not match any genotyped sample in provided vcf file''"

text \<open>
  Lines 153--155: the genotype flag read from the library is switched off, with a
  warning, when the sample is not among the genotyped samples. The result is the flag
  handed on to post-processing.
\<close>

definition genotype_check :: "lib_infos \<Rightarrow> string \<Rightarrow> event list \<times> bool" where
  "genotype_check infos sample_name =
     (if GENO_AVAILABLE infos \<and> \<not> (sample_name \<in> set (sample_list infos))
      then ([Print (sample_mismatch_warning sample_name)], False)
      else ([], GENO_AVAILABLE infos))"

text \<open>What library preparation leaves for the later stages.\<close>

record library =
  lib_index_path :: string
  lib_d_OptimiR_pickle_path :: string
  lib_VCF_AVAILABLE :: bool
  lib_GENO_AVAILABLE :: bool

text \<open>
  Lines 133--157, LIBRARY PREPARATION: the library directories are created,
  \<open>prepare_library\<close> is called, its pickled summary is loaded, and the genotype
  flag is checked against the sample name.
\<close>

definition library_preparation ::
  "('w, 'c) env \<Rightarrow> args \<Rightarrow> string \<Rightarrow> string \<Rightarrow> 'w \<Rightarrow> event list \<times> 'w \<times> (string + library)" where
  "library_preparation e a outdir sample_name w =
     (let out_directory = abspath e outdir @ ''/OptimiR_lib/'';
          fasta_dir = out_directory @ ''fasta/'';
          w1 = shell e (''mkdir -p '' @ fasta_dir) w;
          fasta_file = fasta_dir @ ''optimiR_library.fa'';
          index_dir = out_directory @ ''bowtie2_index/'';
          w2 = shell e (''mkdir -p '' @ index_dir) w1;
          index_path = index_dir @ ''optimiR_alignment_library'';
          pickle_dir = out_directory @ ''pickle/'';
          w3 = shell e (''mkdir -p '' @ pickle_dir) w2;
          lib_infos_pickle_path = pickle_dir @ ''lib_infos.pkl'';
          d_OptimiR_pickle_path = pickle_dir @ ''d_OptimiR.pkl'';
          tr = [Shell (''mkdir -p '' @ fasta_dir), Shell (''mkdir -p '' @ index_dir),
                Shell (''mkdir -p '' @ pickle_dir), Call_prepare_library (VCF a)]
      in (case prepare_library e (BOWTIE2_BUILD a) (VCF a) (MATURES a) (HAIRPINS a) (GFF3 a)
                 out_directory fasta_file index_path lib_infos_pickle_path
                 d_OptimiR_pickle_path w3 of
            (Inl msg, w4) \<Rightarrow> (tr, w4, Inl msg)
          | (Inr _, w4) \<Rightarrow>
              (let infos = load_obj e lib_infos_pickle_path w4 in
               (case genotype_check infos sample_name of
                  (warn, geno) \<Rightarrow>
                    (tr @ warn @ [Progress ''lib_prep'' (VERBOSE a)], w4,
                     Inr \<lparr> lib_index_path = index_path,
                           lib_d_OptimiR_pickle_path = d_OptimiR_pickle_path,
                           lib_VCF_AVAILABLE = VCF_AVAILABLE infos,
                           lib_GENO_AVAILABLE = geno \<rparr>)))))"

definition trimmed_file :: "string \<Rightarrow> string \<Rightarrow> string" where
  "trimmed_file tmpdir sample_name =
     tmpdir @ ''/0_Trimming'' @ ''/'' @ sample_name @ ''.trimmed.fq''"

text \<open>
  Lines 160--165: adapter trimming. \<open>trimming\<close> is called when the sample's
  trimmed file is not there or \<open>--trimAgain\<close> is set; otherwise nothing is done.
\<close>

definition trim_stage ::
  "('w, 'c) env \<Rightarrow> args \<Rightarrow> string \<Rightarrow> string \<Rightarrow> 'w \<Rightarrow> event list \<times> 'w \<times> (string + unit)" where
  "trim_stage e a sample_name tmpdir w =
     (let tmpdir_trim = tmpdir @ ''/0_Trimming'' in
      if \<not> path_exists e w (trimmed_file tmpdir sample_name) \<or> TRIM_AGAIN a
      then (let w1 = shell e (''mkdir -p '' @ tmpdir_trim) w in
            (case trimming e (FASTQ a) sample_name tmpdir_trim (CUTADAPT a) (ADAPT3 a) (ADAPT5 a)
                    (READMIN a) (READMAX a) (BQTHRESH a) w1 of
               (Inl msg, w2) \<Rightarrow>
                 ([Shell (''mkdir -p '' @ tmpdir_trim), Call_trimming sample_name], w2, Inl msg)
             | (Inr _, w2) \<Rightarrow>
                 ([Shell (''mkdir -p '' @ tmpdir_trim), Call_trimming sample_name,
                   Progress ''trim'' (VERBOSE a)], w2, Inr ())))
      else ([Progress ''trim'' (VERBOSE a)], w, Inr ()))"

text \<open>Lines 166--170: collapsing of the trimmed reads; the result is the collapse
  table (the collapse report is not used by the driver).\<close>

definition collapse_stage ::
  "('w, 'c) env \<Rightarrow> args \<Rightarrow> string \<Rightarrow> string \<Rightarrow> 'w \<Rightarrow> event list \<times> 'w \<times> (string + 'c)" where
  "collapse_stage e a sample_name tmpdir w =
     (let tmpdir_trim = tmpdir @ ''/0_Trimming'';
          tmpdir_collapsed = tmpdir @ ''/1_Collapsing'';
          w1 = shell e (''mkdir -p '' @ tmpdir_collapsed) w
      in (case collapsing e sample_name tmpdir_collapsed tmpdir_trim w1 of
            (Inl msg, w2) \<Rightarrow>
              ([Shell (''mkdir -p '' @ tmpdir_collapsed), Call_collapsing sample_name], w2, Inl msg)
          | (Inr collapse_table, w2) \<Rightarrow>
              ([Shell (''mkdir -p '' @ tmpdir_collapsed), Call_collapsing sample_name,
                Progress ''collaps'' (VERBOSE a)], w2, Inr collapse_table)))"

text \<open>Lines 173--178: alignment of the collapsed reads on the library index.\<close>

definition mapping_stage ::
  "('w, 'c) env \<Rightarrow> string \<Rightarrow> args \<Rightarrow> string \<Rightarrow> string \<Rightarrow> string \<Rightarrow> 'w \<Rightarrow>
   event list \<times> 'w \<times> (string + unit)" where
  "mapping_stage e optimiR_path a sample_name tmpdir index_path w =
     (let tmpdir_collapsed = tmpdir @ ''/1_Collapsing'';
          tmpdir_mapping = tmpdir @ ''/2_Mapping'';
          w1 = shell e (''mkdir -p '' @ tmpdir_mapping) w;
          fastq_in = tmpdir_collapsed @ ''/'' @ sample_name @ ''.clpsd.fq''
      in (case mapping e tmpdir_mapping fastq_in sample_name (BOWTIE2 a) (SEEDLEN a) index_path
                 optimiR_path (SAMTOOLS a) w1 of
            (Inl msg, w2) \<Rightarrow>
              ([Shell (''mkdir -p '' @ tmpdir_mapping), Call_mapping sample_name], w2, Inl msg)
          | (Inr _, w2) \<Rightarrow>
              ([Shell (''mkdir -p '' @ tmpdir_mapping), Call_mapping sample_name,
                Progress ''mapping'' (VERBOSE a)], w2, Inr ())))"

text \<open>Lines 181--186: the arguments handed to \<open>post_process_main\<close>.\<close>

definition post_process_args ::
  "args \<Rightarrow> bool \<Rightarrow> string \<Rightarrow> string \<Rightarrow> string \<Rightarrow> library \<Rightarrow> pp_args" where
  "post_process_args a write_vcf outdir tmpdir sample_name lib =
     \<lparr> pp_tmpdir_mapping = tmpdir @ ''/2_Mapping'',
       pp_tmpdir_postProcess = tmpdir @ ''/3_PostProcess'',
       pp_dir_results = outdir @ ''/OptimiR_Results'',
       pp_sample_name = sample_name,
       pp_WEIGHT5 = WEIGHT5 a,
       pp_SCORE_THRESHOLD = SCORE_THRESH a,
       pp_INCONSISTENT_THRESHOLD = INCONSISTENT_THRESHOLD a,
       pp_d_OptimiR_pickle_path = lib_d_OptimiR_pickle_path lib,
       pp_VCF_AVAILABLE = lib_VCF_AVAILABLE lib,
       pp_GENO_AVAILABLE = lib_GENO_AVAILABLE lib,
       pp_ANNOT_FILES = ANNOT_FILES a,
       pp_VERBOSE = VERBOSE a,
       pp_WRITE_GFF = WRITE_GFF a,
       pp_WRITE_VCF = write_vcf,
       pp_sourceDB = sourceDB_of (MATURES a) \<rparr>"

text \<open>
  Lines 181--192: post-processing, then the temporary directory is removed when
  \<open>--rmTempFiles\<close> is set.
\<close>

definition post_process_stage ::
  "('w, 'c) env \<Rightarrow> args \<Rightarrow> string \<Rightarrow> string \<Rightarrow> pp_args \<Rightarrow> 'c \<Rightarrow> 'w \<Rightarrow>
   event list \<times> 'w \<times> (string + unit)" where
  "post_process_stage e a outdir tmpdir pa collapse_table w =
     (let w1 = shell e (''mkdir -p '' @ pp_tmpdir_postProcess pa) w;
          w2 = shell e (''mkdir -p '' @ pp_dir_results pa) w1;
          tr = [Shell (''mkdir -p '' @ pp_tmpdir_postProcess pa),
                Shell (''mkdir -p '' @ pp_dir_results pa), Call_post_process pa]
      in (case post_process_main e pa collapse_table w2 of
            (Inl msg, w3) \<Rightarrow> (tr, w3, Inl msg)
          | (Inr _, w3) \<Rightarrow>
              (if RMTEMP a
               then (tr @ [Progress ''postproc'' (VERBOSE a), Shell (''rm -r '' @ tmpdir),
                           Progress ''footer'' (VERBOSE a)],
                     shell e (''rm -r '' @ tmpdir) w3, Inr ())
               else (tr @ [Progress ''postproc'' (VERBOSE a), Progress ''footer'' (VERBOSE a)],
                     w3, Inr ()))))"

text \<open>Lines 126--192: the body of the second \<open>try\<close>.\<close>

definition main_process ::
  "('w, 'c) env \<Rightarrow> string \<Rightarrow> args \<Rightarrow> bool \<Rightarrow> string \<Rightarrow> string \<Rightarrow> 'w \<Rightarrow>
   event list \<times> 'w \<times> (string + unit)" where
  "main_process e optimiR_path a write_vcf outdir tmpdir w =
     (let w1 = shell e (''mkdir -p '' @ outdir) w;
          w2 = shell e (''mkdir -p '' @ tmpdir) w1;
          sample_name = sample_name_of (FASTQ a);
          t0 = [Shell (''mkdir -p '' @ outdir), Shell (''mkdir -p '' @ tmpdir),
                Progress ''header'' (VERBOSE a)]
      in and_then (t0, w2, Inr ()) (\<lambda>_ w.
         and_then (library_preparation e a outdir sample_name w) (\<lambda>lib w.
         and_then (trim_stage e a sample_name tmpdir w) (\<lambda>_ w.
         and_then (collapse_stage e a sample_name tmpdir w) (\<lambda>collapse_table w.
         and_then (mapping_stage e optimiR_path a sample_name tmpdir (lib_index_path lib) w) (\<lambda>_ w.
           post_process_stage e a outdir tmpdir
             (post_process_args a write_vcf outdir tmpdir sample_name lib) collapse_table w))))))"

definition os_pipe_message :: "string \<Rightarrow> string" where
  "os_pipe_message msg =
     ''Error with system call: '' @ msg @
     ''\<newline>Check that path to Bowtie2, Cutadapt, Samtools are well defined.\<newline>''"

text \<open>Lines 118--120: a trailing slash of \<open>OUTDIR\<close> is dropped (the string is
  not empty here); the temporary directory lies under the output directory.\<close>

definition outdir_of :: "args \<Rightarrow> string" where
  "outdir_of a = (if last (OUTDIR a) = CHR ''/'' then butlast (OUTDIR a) else OUTDIR a)"

definition tmpdir_of :: "('w, 'c) env \<Rightarrow> args \<Rightarrow> string" where
  "tmpdir_of e a = abspath e (outdir_of a) @ ''/OptimiR_tmp''"

text \<open>
  \<open>main()\<close>, from the parsed arguments on. \<open>optimiR_path\<close> is the directory of the
  installed package. An \<open>InputError\<close> ends the run with status 4 before anything else
  is done; \<open>OUTDIR[-1]\<close> raises \<open>IndexError\<close> on an empty string; an
  \<open>Except_OS_Pipe\<close> from a stage ends the run with status 3.
\<close>

definition main :: "('w, 'c) env \<Rightarrow> string \<Rightarrow> args \<Rightarrow> 'w \<Rightarrow> outcome \<times> event list \<times> 'w" where
  "main e optimiR_path a w =
     (case check_inputs e a w of
        (t0, write_vcf, Inl err) \<Rightarrow> (Exit 4, t0 @ [Print (input_error_message err)], w)
      | (t0, write_vcf, Inr _) \<Rightarrow>
          (if OUTDIR a = [] then (Uncaught ''IndexError'', t0, w)
           else (case main_process e optimiR_path a write_vcf (outdir_of a) (tmpdir_of e a) w of
                   (t, w', Inl msg) \<Rightarrow> (Exit 3, t0 @ t @ [Print (os_pipe_message msg)], w')
                 | (t, w', Inr _) \<Rightarrow> (Completed, t0 @ t, w'))))"

text \<open>The trace of a run, and the stage calls in it.\<close>

definition trace_of :: "outcome \<times> event list \<times> 'w \<Rightarrow> event list" where
  "trace_of r = fst (snd r)"

text \<open>An environment in which no stage ever raises \<open>Except_OS_Pipe\<close>.\<close>

definition never_raises :: "('w, 'c) env \<Rightarrow> bool" where
  "never_raises e =
     ((\<forall>b v m h g d f i l p w. \<exists>w'. prepare_library e b v m h g d f i l p w = (Inr (), w')) \<and>
      (\<forall>fq s d c a3 a5 mn mx bq w. \<exists>w'. trimming e fq s d c a3 a5 mn mx bq w = (Inr (), w')) \<and>
      (\<forall>s dc dt w. \<exists>c w'. collapsing e s dc dt w = (Inr c, w')) \<and>
      (\<forall>d fq s b sl i p sm w. \<exists>w'. mapping e d fq s b sl i p sm w = (Inr (), w')) \<and>
      (\<forall>pa c w. \<exists>w'. post_process_main e pa c w = (Inr (), w')))"

text \<open>The world in which library preparation starts: after the two \<open>mkdir\<close> of
  lines 128--129.\<close>

definition start_world :: "('w, 'c) env \<Rightarrow> string \<Rightarrow> string \<Rightarrow> 'w \<Rightarrow> 'w" where
  "start_world e outdir tmpdir w =
     shell e (''mkdir -p '' @ tmpdir) (shell e (''mkdir -p '' @ outdir) w)"

subsection \<open>A sample environment\<close>

text \<open>
  A small concrete environment for evaluating the driver: the world is the list of
  existing paths, shell commands leave it alone, the library reports two genotyped
  samples, and trimming writes the trimmed file.
\<close>

definition example_env :: "(string list, nat) env" where
  "example_env =
     \<lparr> file_exists = (\<lambda>w p. p \<in> set w),
       path_exists = (\<lambda>w p. p \<in> set w),
       abspath = (\<lambda>p. ''/work/'' @ p),
       shell = (\<lambda>cmd w. w),
       prepare_library = (\<lambda>b v m h g d f i l p w. (Inr (), w)),
       load_obj = (\<lambda>p w. \<lparr> VCF_AVAILABLE = True, GENO_AVAILABLE = True,
                            sample_list = [''sampleA.fq'', ''sampleB.fq''],
                            fasta_hash = ''f'', vcf_hash = ''v'' \<rparr>),
       trimming = (\<lambda>fq s d c a3 a5 mn mx bq w. (Inr (), (d @ ''/'' @ s @ ''.trimmed.fq'') # w)),
       collapsing = (\<lambda>s dc dt w. (Inr 0, w)),
       mapping = (\<lambda>d fq s b sl i p sm w. (Inr (), w)),
       post_process_main = (\<lambda>pa c w. (Inr (), w)) \<rparr>"

text \<open>The same environment for a run without a VCF: the library reports that neither
  variants nor genotypes are available.\<close>

definition example_env_no_vcf :: "(string list, nat) env" where
  "example_env_no_vcf =
     example_env \<lparr> load_obj := (\<lambda>p w. \<lparr> VCF_AVAILABLE = False, GENO_AVAILABLE = False,
                                           sample_list = [], fasta_hash = ''f'', vcf_hash = [] \<rparr>) \<rparr>"



definition example_args :: args where
  "example_args = (default_args ''/opt/optimir'' ''/data/sampleB.fq.gz'')\<lparr> VCF := Some ''/data/geno.vcf'' \<rparr>"

definition example_world :: "string list" where
  "example_world =
     [''/data/sampleB.fq.gz'', ''/data/geno.vcf'',
      ''/opt/optimir/resources/fasta/hsa_matures_miRBase_v21.fa'',
      ''/opt/optimir/resources/fasta/hsa_hairpins_miRBase_v21.fa'',
      ''/opt/optimir/resources/coordinates/hsa_miRBase_v21.gff3'']"

section \<open>Post-alignment annotation\<close>

text \<open>
  The driver hands \<open>WEIGHT5\<close>, \<open>SCORE_THRESHOLD\<close> and
  \<open>INCONSISTENT_THRESHOLD\<close> to \<open>post_process_main\<close>, which is defined in
  \<open>optimir.libs.post_process\<close>. That module is not among the sources, so the
  scoring and flagging rules below follow the specification (sections 3, 4.3 and 4.4).
\<close>

subsection \<open>Alignment score\<close>

text \<open>
  Modelled from the spec: the alignment record (section 3: "AlignmentRecord:
  {UniqueRead ref, ReferenceSequence ref, offset, mismatch positions, strand}"); its code
  is in the absent \<open>optimir.libs.post_process\<close>. Reads and references are referred to
  by number; a mismatch position is counted along the aligned span from the 5' end of the
  read, starting at 0.
\<close>

record AlignmentRecord =
  ar_read :: nat
  ar_reference :: nat
  ar_offset :: nat
  ar_mismatches :: "nat list"
  ar_strand :: bool

text \<open>
  Modelled from the spec: the score of the absent \<open>optimir.libs.post_process\<close>
  (section 4.3): "Score = mismatch count over the aligned span, with mismatches inside a
  configurable 5'-proximal window additively weighted by a multiplier (default 4)". A
  mismatch at a position below \<open>window\<close> counts \<open>weight5\<close>, any other counts 1,
  and the score is their sum.
\<close>

definition mismatch_weight :: "nat \<Rightarrow> int \<Rightarrow> nat \<Rightarrow> int" where
  "mismatch_weight window weight5 p = (if p < window then weight5 else 1)"

definition score :: "nat \<Rightarrow> int \<Rightarrow> AlignmentRecord \<Rightarrow> int" where
  "score window weight5 a = sum_list (map (mismatch_weight window weight5) (ar_mismatches a))"

text \<open>
  Modelled from the spec: the discard rule of the absent \<open>optimir.libs.post_process\<close>
  (section 4.3): "An alignment is discarded when its score exceeds a configurable
  threshold (default 9); discarding is per-alignment, not per-read".
\<close>

definition discarded :: "nat \<Rightarrow> int \<Rightarrow> int \<Rightarrow> AlignmentRecord \<Rightarrow> bool" where
  "discarded window weight5 score_threshold a \<longleftrightarrow> score window weight5 a > score_threshold"

definition surviving :: "nat \<Rightarrow> int \<Rightarrow> int \<Rightarrow> AlignmentRecord list \<Rightarrow> AlignmentRecord list" where
  "surviving window weight5 score_threshold as =
     filter (\<lambda>a. \<not> discarded window weight5 score_threshold a) as"

subsection \<open>Suspicious variant sites\<close>

datatype classification = Consistent | Inconsistent | Ambiguous | NotApplicable

text \<open>
  Modelled from the spec: the scored alignment (section 3: "ScoredAlignment:
  AlignmentRecord + {numeric score, consistency classification}") and what the resolver
  reads of a variant site (section 3: "VariantSite: {..., affected ReferenceSequence ids,
  per-sample genotype calls}"): the affected references and whether the sample has a
  genotype call there. Their code is in the absent \<open>optimir.libs.post_process\<close>.
\<close>

record ScoredAlignment =
  sa_record :: AlignmentRecord
  sa_score :: int
  sa_classification :: classification

record VariantSite =
  vs_position :: nat
  vs_references :: "nat list"
  vs_genotype_available :: bool

text \<open>
  Modelled from the spec: the counts of the absent resolver (section 4.4): "inconsistent
  rate = (sum of inconsistent-classified counts) / (sum of all classified counts at that
  site)". \<open>counts\<close> gives the collapsed count of a read; an alignment is at a site
  when its reference is one of the site's.
\<close>

definition at_site :: "VariantSite \<Rightarrow> ScoredAlignment list \<Rightarrow> ScoredAlignment list" where
  "at_site site sas = filter (\<lambda>sa. ar_reference (sa_record sa) \<in> set (vs_references site)) sas"

definition classified_count :: "(nat \<Rightarrow> nat) \<Rightarrow> VariantSite \<Rightarrow> ScoredAlignment list \<Rightarrow> nat" where
  "classified_count counts site sas =
     sum_list (map (\<lambda>sa. counts (ar_read (sa_record sa))) (at_site site sas))"

definition inconsistent_count :: "(nat \<Rightarrow> nat) \<Rightarrow> VariantSite \<Rightarrow> ScoredAlignment list \<Rightarrow> nat" where
  "inconsistent_count counts site sas =
     sum_list (map (\<lambda>sa. counts (ar_read (sa_record sa)))
                 (filter (\<lambda>sa. sa_classification sa = Inconsistent) (at_site site sas)))"

text \<open>The quotient is written out only where it exists: a site without classified
  counts has no rate.\<close>

definition inconsistent_rate ::
  "(nat \<Rightarrow> nat) \<Rightarrow> VariantSite \<Rightarrow> ScoredAlignment list \<Rightarrow> rat option" where
  "inconsistent_rate counts site sas =
     (if classified_count counts site sas = 0 then None
      else Some (of_nat (inconsistent_count counts site sas) /
                 of_nat (classified_count counts site sas)))"

text \<open>
  Modelled from the spec: the flag of the absent resolver (section 4.4): "Sites with rate
  strictly greater than a configurable threshold (default 0.01) are flagged highly
  suspicious". The threshold and the rate are rationals here, where the program has
  floats.
\<close>

definition highly_suspicious ::
  "rat \<Rightarrow> (nat \<Rightarrow> nat) \<Rightarrow> VariantSite \<Rightarrow> ScoredAlignment list \<Rightarrow> bool" where
  "highly_suspicious threshold counts site sas =
     (case inconsistent_rate counts site sas of
        None \<Rightarrow> False
      | Some r \<Rightarrow> r > threshold)"

text \<open>
  Modelled from the spec: the absent resolver as a whole (section 4.4): "For each
  genotype-available VariantSite ..."; "Resolution only annotates; it never discards
  reads". It returns the genotype-available sites with their flags, and the alignments
  as they came.
\<close>

definition resolve ::
  "rat \<Rightarrow> (nat \<Rightarrow> nat) \<Rightarrow> VariantSite list \<Rightarrow> ScoredAlignment list \<Rightarrow>
   (VariantSite \<times> bool) list \<times> ScoredAlignment list" where
  "resolve threshold counts sites sas =
     (map (\<lambda>site. (site, highly_suspicious threshold counts site sas))
        (filter vs_genotype_available sites),
      sas)"

subsection \<open>Sample alignments\<close>

text \<open>
  Three alignments of read 0 on references 7, 8 and 9, with mismatches at positions
  0, 2, 15, at 0, 1, 2 and at 5, 9; and the two alignments of the specification's
  example: reads 0 and 1 on reference 7, one consistent and one inconsistent with the
  genotype at the site of that reference.
\<close>

definition example_alignment :: "nat \<Rightarrow> nat list \<Rightarrow> AlignmentRecord" where
  "example_alignment ref ms =
     \<lparr> ar_read = 0, ar_reference = ref, ar_offset = 0, ar_mismatches = ms, ar_strand = True \<rparr>"

definition example_site :: VariantSite where
  "example_site = \<lparr> vs_position = 12, vs_references = [7], vs_genotype_available = True \<rparr>"

definition example_scored :: "ScoredAlignment list" where
  "example_scored =
     [\<lparr> sa_record = \<lparr> ar_read = 0, ar_reference = 7, ar_offset = 0, ar_mismatches = [],
                       ar_strand = True \<rparr>,
        sa_score = 0, sa_classification = Consistent \<rparr>,
      \<lparr> sa_record = \<lparr> ar_read = 1, ar_reference = 7, ar_offset = 0, ar_mismatches = [12],
                       ar_strand = True \<rparr>,
        sa_score = 1, sa_classification = Inconsistent \<rparr>]"

text \<open>Read 0 has \<open>n - k\<close> copies, every other read \<open>k\<close> copies.\<close>

definition example_counts :: "nat \<Rightarrow> nat \<Rightarrow> nat \<Rightarrow> nat" where
  "example_counts n k r = (if r = 0 then n - k else k)"

section \<open>Properties of the driver\<close>

subsection \<open>Auxiliary facts\<close>

lemma str_split_ne: "str_split sep s \<noteq> []"
  by (induction s) (auto split: list.splits)

lemma hd_str_split: "hd (str_split sep s) = takeWhile (\<lambda>c. c \<noteq> sep) s"
  using str_split_ne by (induction s) (auto split: list.splits)

lemma sample_name_of_takeWhile:
  "sample_name_of fq = takeWhile (\<lambda>c. c \<noteq> CHR ''.'') (basename fq)"
  by (simp add: sample_name_of_def hd_str_split)

lemma sample_name_of_no_dot: "CHR ''.'' \<notin> set (sample_name_of fq)"
  unfolding sample_name_of_takeWhile by (auto dest: set_takeWhileD)

lemma check_all_find:
  "check_all e w ps =
     (case find (\<lambda>q. \<not> file_exists e w q) ps of None \<Rightarrow> Inr () | Some q \<Rightarrow> Inl (InputError q))"
  by (induction ps) (auto simp: check_if_file_exists_def)

lemma check_all_ok: "check_all e w ps = Inr () \<longleftrightarrow> (\<forall>p\<in>set ps. file_exists e w p)"
  by (induction ps) (auto simp: check_if_file_exists_def)

lemma in_and_then:
  "ev \<in> set (fst (and_then r f)) \<longleftrightarrow>
     ev \<in> set (fst r) \<or> (\<exists>x. snd (snd r) = Inr x \<and> ev \<in> set (fst (f x (fst (snd r)))))"
  by (auto simp: and_then_def split: prod.splits sum.splits)

lemma start_world_fold:
  "shell e (''mkdir -p '' @ tmpdir) (shell e (''mkdir -p '' @ outdir) w) = start_world e outdir tmpdir w"
  by (simp add: start_world_def)

lemma library_preparation_result:
  assumes "library_preparation e a outdir s w = (t, w', Inr lib)"
  shows "lib_GENO_AVAILABLE lib =
           snd (genotype_check (load_obj e (abspath e outdir @ ''/OptimiR_lib/pickle/lib_infos.pkl'') w') s)"
  using assms unfolding library_preparation_def Let_def
  by (auto split: prod.splits sum.splits)

lemma library_preparation_warning:
  assumes "library_preparation e a outdir s w = (t, w', Inr lib)"
  shows "Print (sample_mismatch_warning s) \<in> set t \<longleftrightarrow>
           fst (genotype_check (load_obj e (abspath e outdir @ ''/OptimiR_lib/pickle/lib_infos.pkl'') w') s) \<noteq> []"
  using assms unfolding library_preparation_def Let_def
  by (auto simp: genotype_check_def split: prod.splits sum.splits if_splits)

lemma library_preparation_calls:
  "Call_post_process pa \<notin> set (fst (library_preparation e a outdir s w))"
  "Call_trimming x \<notin> set (fst (library_preparation e a outdir s w))"
  "Call_collapsing x \<notin> set (fst (library_preparation e a outdir s w))"
  "Call_mapping x \<notin> set (fst (library_preparation e a outdir s w))"
  unfolding library_preparation_def Let_def
  by (auto simp: genotype_check_def split: prod.splits sum.splits if_splits)

lemma trim_stage_calls:
  "Call_post_process pa \<notin> set (fst (trim_stage e a s tmpdir w))"
  "Call_collapsing x \<notin> set (fst (trim_stage e a s tmpdir w))"
  "Call_mapping x \<notin> set (fst (trim_stage e a s tmpdir w))"
  "Call_trimming x \<in> set (fst (trim_stage e a s tmpdir w)) \<longleftrightarrow>
     x = s \<and> (\<not> path_exists e w (trimmed_file tmpdir s) \<or> TRIM_AGAIN a)"
  unfolding trim_stage_def Let_def
  by (auto split: prod.splits sum.splits if_splits)

lemma collapse_stage_calls:
  "Call_post_process pa \<notin> set (fst (collapse_stage e a s tmpdir w))"
  "Call_trimming x \<notin> set (fst (collapse_stage e a s tmpdir w))"
  "Call_mapping x \<notin> set (fst (collapse_stage e a s tmpdir w))"
  "Call_collapsing x \<in> set (fst (collapse_stage e a s tmpdir w)) \<longleftrightarrow> x = s"
  unfolding collapse_stage_def Let_def
  by (auto split: prod.splits sum.splits if_splits)

lemma mapping_stage_calls:
  "Call_post_process pa \<notin> set (fst (mapping_stage e P a s tmpdir i w))"
  "Call_trimming x \<notin> set (fst (mapping_stage e P a s tmpdir i w))"
  "Call_collapsing x \<notin> set (fst (mapping_stage e P a s tmpdir i w))"
  "Call_mapping x \<in> set (fst (mapping_stage e P a s tmpdir i w)) \<longleftrightarrow> x = s"
  unfolding mapping_stage_def Let_def
  by (auto split: prod.splits sum.splits if_splits)

lemma post_process_stage_calls:
  "Call_post_process pa' \<in> set (fst (post_process_stage e a outdir tmpdir pa c w)) \<longleftrightarrow> pa' = pa"
  "Call_trimming x \<notin> set (fst (post_process_stage e a outdir tmpdir pa c w))"
  "Call_collapsing x \<notin> set (fst (post_process_stage e a outdir tmpdir pa c w))"
  "Call_mapping x \<notin> set (fst (post_process_stage e a outdir tmpdir pa c w))"
  unfolding post_process_stage_def Let_def
  by (auto split: prod.splits sum.splits if_splits)

lemmas stage_calls = library_preparation_calls trim_stage_calls collapse_stage_calls
  mapping_stage_calls post_process_stage_calls

lemma main_process_pp_call:
  assumes "Call_post_process pa \<in> set (fst (main_process e P a wv outdir tmpdir w))"
  shows "\<exists>lib. snd (snd (library_preparation e a outdir (sample_name_of (FASTQ a))
                      (start_world e outdir tmpdir w))) = Inr lib \<and>
            pa = post_process_args a wv outdir tmpdir (sample_name_of (FASTQ a)) lib"
  using assms unfolding main_process_def Let_def start_world_fold
  by (auto simp add: in_and_then stage_calls)

lemma main_process_stage_names:
  "Call_trimming x \<in> set (fst (main_process e P a wv outdir tmpdir w)) \<Longrightarrow> x = sample_name_of (FASTQ a)"
  "Call_collapsing x \<in> set (fst (main_process e P a wv outdir tmpdir w)) \<Longrightarrow> x = sample_name_of (FASTQ a)"
  "Call_mapping x \<in> set (fst (main_process e P a wv outdir tmpdir w)) \<Longrightarrow> x = sample_name_of (FASTQ a)"
  unfolding main_process_def Let_def start_world_fold
  by (auto simp add: in_and_then stage_calls)

lemma main_process_trimming:
  assumes "library_preparation e a outdir (sample_name_of (FASTQ a)) (start_world e outdir tmpdir w)
             = (t1, w1, Inr lib)"
  shows "Call_trimming x \<in> set (fst (main_process e P a wv outdir tmpdir w)) \<longleftrightarrow>
           x = sample_name_of (FASTQ a) \<and>
           (\<not> path_exists e w1 (trimmed_file tmpdir (sample_name_of (FASTQ a))) \<or> TRIM_AGAIN a)"
proof -
  have "Call_trimming x \<notin> set t1"
    using library_preparation_calls(2)[of x e a outdir "sample_name_of (FASTQ a)" "start_world e outdir tmpdir w"]
      assms by simp
  then show ?thesis
    using assms unfolding main_process_def Let_def start_world_fold
    by (auto simp add: in_and_then stage_calls)
qed


lemma check_inputs_cases:
  "check_inputs e a w =
     ((if VCF a = None \<and> WRITE_VCF a then [Print no_vcf_warning] else []),
      (if VCF a = None then False else WRITE_VCF a),
      (case find (\<lambda>q. \<not> file_exists e w q) (required_paths a) of
         None \<Rightarrow> Inr () | Some q \<Rightarrow> Inl (InputError q)))"
  by (auto simp: check_inputs_def check_all_find)

lemma main_call_in_process:
  assumes "ev \<in> set (trace_of (main e P a w))" and "\<forall>s. ev \<noteq> Print s"
  shows "ev \<in> set (fst (main_process e P a (if VCF a = None then False else WRITE_VCF a)
            (outdir_of a) (tmpdir_of e a) w))"
  using assms unfolding main_def trace_of_def check_inputs_cases
  by (auto split: option.splits if_splits prod.splits sum.splits)

lemma main_pp_call:
  assumes "Call_post_process pa \<in> set (trace_of (main e P a w))"
  shows "\<exists>lib. snd (snd (library_preparation e a (outdir_of a) (sample_name_of (FASTQ a))
                      (start_world e (outdir_of a) (tmpdir_of e a) w))) = Inr lib \<and>
            pa = post_process_args a (if VCF a = None then False else WRITE_VCF a)
                   (outdir_of a) (tmpdir_of e a) (sample_name_of (FASTQ a)) lib"
  using main_call_in_process[OF assms] main_process_pp_call by fastforce

lemma main_pp_geno:
  assumes "Call_post_process pa \<in> set (trace_of (main e P a w))"
  shows "\<exists>p w'. pp_GENO_AVAILABLE pa = snd (genotype_check (load_obj e p w') (sample_name_of (FASTQ a)))"
proof -
  obtain lib where L: "snd (snd (library_preparation e a (outdir_of a) (sample_name_of (FASTQ a))
                      (start_world e (outdir_of a) (tmpdir_of e a) w))) = Inr lib"
    and pa: "pa = post_process_args a (if VCF a = None then False else WRITE_VCF a)
                   (outdir_of a) (tmpdir_of e a) (sample_name_of (FASTQ a)) lib"
    using main_pp_call[OF assms] by blast
  obtain t w' where "library_preparation e a (outdir_of a) (sample_name_of (FASTQ a))
                      (start_world e (outdir_of a) (tmpdir_of e a) w) = (t, w', Inr lib)"
    using L by (metis prod.collapse)
  from library_preparation_result[OF this] pa show ?thesis
    by (auto simp: post_process_args_def)
qed


lemma never_raisesD:
  assumes "never_raises e"
  shows "\<exists>w'. prepare_library e b v m h g d f i l p w = (Inr (), w')"
    and "\<exists>w'. trimming e fq s dt c a3 a5 mn mx bq w = (Inr (), w')"
    and "\<exists>ct w'. collapsing e s dc dt w = (Inr ct, w')"
    and "\<exists>w'. mapping e dm fq s bw sl i p sm w = (Inr (), w')"
    and "\<exists>w'. post_process_main e pa ct w = (Inr (), w')"
  using assms unfolding never_raises_def by simp_all

lemma never_raises_library:
  assumes "never_raises e"
  shows "\<exists>t w' lib. library_preparation e a outdir s w = (t, w', Inr lib)"
proof -
  let ?d = "abspath e outdir @ ''/OptimiR_lib/''"
  obtain w4 where
    "prepare_library e (BOWTIE2_BUILD a) (VCF a) (MATURES a) (HAIRPINS a) (GFF3 a) ?d
       ((?d @ ''fasta/'') @ ''optimiR_library.fa'')
       ((?d @ ''bowtie2_index/'') @ ''optimiR_alignment_library'')
       ((?d @ ''pickle/'') @ ''lib_infos.pkl'') ((?d @ ''pickle/'') @ ''d_OptimiR.pkl'')
       (shell e (''mkdir -p '' @ ?d @ ''pickle/'')
          (shell e (''mkdir -p '' @ ?d @ ''bowtie2_index/'')
             (shell e (''mkdir -p '' @ ?d @ ''fasta/'') w))) = (Inr (), w4)"
    using never_raisesD[OF assms] by meson
  then show ?thesis
    unfolding library_preparation_def Let_def by (simp split: prod.splits)
qed

lemma never_raises_trim:
  assumes "never_raises e"
  shows "\<exists>t w'. trim_stage e a s tmpdir w = (t, w', Inr ())"
proof -
  obtain w2 where
    "trimming e (FASTQ a) s (tmpdir @ ''/0_Trimming'') (CUTADAPT a) (ADAPT3 a) (ADAPT5 a)
       (READMIN a) (READMAX a) (BQTHRESH a) (shell e (''mkdir -p '' @ tmpdir @ ''/0_Trimming'') w)
     = (Inr (), w2)"
    using never_raisesD[OF assms] by meson
  then show ?thesis
    unfolding trim_stage_def Let_def by simp
qed

lemma never_raises_collapse:
  assumes "never_raises e"
  shows "\<exists>t w' c. collapse_stage e a s tmpdir w = (t, w', Inr c)"
proof -
  obtain c w2 where
    "collapsing e s (tmpdir @ ''/1_Collapsing'') (tmpdir @ ''/0_Trimming'')
       (shell e (''mkdir -p '' @ tmpdir @ ''/1_Collapsing'') w) = (Inr c, w2)"
    using never_raisesD[OF assms] by meson
  then show ?thesis
    unfolding collapse_stage_def Let_def by simp
qed

lemma never_raises_mapping:
  assumes "never_raises e"
  shows "\<exists>t w'. mapping_stage e P a s tmpdir i w = (t, w', Inr ())"
proof -
  obtain w2 where
    "mapping e (tmpdir @ ''/2_Mapping'') ((tmpdir @ ''/1_Collapsing'') @ ''/'' @ s @ ''.clpsd.fq'') s
       (BOWTIE2 a) (SEEDLEN a) i P (SAMTOOLS a)
       (shell e (''mkdir -p '' @ tmpdir @ ''/2_Mapping'') w) = (Inr (), w2)"
    using never_raisesD[OF assms] by meson
  then show ?thesis
    unfolding mapping_stage_def Let_def by simp
qed

lemma never_raises_post_process:
  assumes "never_raises e"
  shows "\<exists>t w'. post_process_stage e a outdir tmpdir pa c w = (t, w', Inr ()) \<and>
           Call_post_process pa \<in> set t"
proof -
  obtain w3 where
    "post_process_main e pa c
       (shell e (''mkdir -p '' @ pp_dir_results pa)
          (shell e (''mkdir -p '' @ pp_tmpdir_postProcess pa) w)) = (Inr (), w3)"
    using never_raisesD[OF assms] by meson
  then show ?thesis
    unfolding post_process_stage_def Let_def by simp
qed

lemma never_raises_main_process:
  assumes "never_raises e"
  shows "\<exists>t1 w1 lib t w'.
           library_preparation e a outdir (sample_name_of (FASTQ a)) (start_world e outdir tmpdir w)
             = (t1, w1, Inr lib) \<and>
           main_process e P a wv outdir tmpdir w = (t, w', Inr ()) \<and>
           set t1 \<subseteq> set t \<and>
           Call_post_process (post_process_args a wv outdir tmpdir (sample_name_of (FASTQ a)) lib) \<in> set t"
proof -
  let ?s = "sample_name_of (FASTQ a)"
  obtain t1 w1 lib where L:
    "library_preparation e a outdir ?s (start_world e outdir tmpdir w) = (t1, w1, Inr lib)"
    using never_raises_library[OF assms] by blast
  obtain t2 w2 where T: "trim_stage e a ?s tmpdir w1 = (t2, w2, Inr ())"
    using never_raises_trim[OF assms] by blast
  obtain t3 w3 c where C: "collapse_stage e a ?s tmpdir w2 = (t3, w3, Inr c)"
    using never_raises_collapse[OF assms] by blast
  obtain t4 w4 where M: "mapping_stage e P a ?s tmpdir (lib_index_path lib) w3 = (t4, w4, Inr ())"
    using never_raises_mapping[OF assms] by blast
  obtain t5 w5 where PP:
    "post_process_stage e a outdir tmpdir (post_process_args a wv outdir tmpdir ?s lib) c w4
       = (t5, w5, Inr ())"
    "Call_post_process (post_process_args a wv outdir tmpdir ?s lib) \<in> set t5"
    using never_raises_post_process[OF assms] by blast
  have "main_process e P a wv outdir tmpdir w =
          ([Shell (''mkdir -p '' @ outdir), Shell (''mkdir -p '' @ tmpdir),
            Progress ''header'' (VERBOSE a)] @ t1 @ t2 @ t3 @ t4 @ t5, w5, Inr ())"
    unfolding main_process_def Let_def start_world_fold
    by (simp add: and_then_def L T C M PP)
  with L PP(2) show ?thesis by auto
qed

lemma check_inputs_prints: "ev \<in> set (fst (check_inputs e a w)) \<Longrightarrow> \<exists>s. ev = Print s"
  by (auto simp: check_inputs_def split: if_splits)

lemma main_trace_ok:
  assumes "\<forall>p\<in>set (required_paths a). file_exists e w p" and "OUTDIR a \<noteq> []"
  shows "ev \<in> set (trace_of (main e P a w)) \<longleftrightarrow>
           ev \<in> set (fst (check_inputs e a w)) \<or>
           ev \<in> set (fst (main_process e P a (if VCF a = None then False else WRITE_VCF a)
                             (outdir_of a) (tmpdir_of e a) w)) \<or>
           (\<exists>msg. snd (snd (main_process e P a (if VCF a = None then False else WRITE_VCF a)
                             (outdir_of a) (tmpdir_of e a) w)) = Inl msg \<and>
                  ev = Print (os_pipe_message msg))"
proof -
  have "find (\<lambda>q. \<not> file_exists e w q) (required_paths a) = None"
    using assms(1) by (simp add: find_None_iff)
  then show ?thesis
    using assms(2) unfolding main_def trace_of_def check_inputs_cases
    by (auto split: prod.splits sum.splits)
qed

lemma main_completes:
  assumes "\<forall>p\<in>set (required_paths a). file_exists e w p" and "OUTDIR a \<noteq> []"
    and "never_raises e"
  shows "\<exists>t w' w1 pa.
           main e P a w = (Completed, t, w') \<and> Call_post_process pa \<in> set t \<and>
           (fst (genotype_check
                  (load_obj e (abspath e (outdir_of a) @ ''/OptimiR_lib/pickle/lib_infos.pkl'') w1)
                  (sample_name_of (FASTQ a))) \<noteq> []
            \<longrightarrow> Print (sample_mismatch_warning (sample_name_of (FASTQ a))) \<in> set t)"
proof -
  let ?wv = "if VCF a = None then False else WRITE_VCF a"
  obtain t1 w1 lib t w' where
    L: "library_preparation e a (outdir_of a) (sample_name_of (FASTQ a))
          (start_world e (outdir_of a) (tmpdir_of e a) w) = (t1, w1, Inr lib)"
    and M: "main_process e P a ?wv (outdir_of a) (tmpdir_of e a) w = (t, w', Inr ())"
    and S: "set t1 \<subseteq> set t"
    and C: "Call_post_process (post_process_args a ?wv (outdir_of a) (tmpdir_of e a)
               (sample_name_of (FASTQ a)) lib) \<in> set t"
    using never_raises_main_process[OF assms(3), of a "outdir_of a" "tmpdir_of e a" w P ?wv]
    by blast
  have F: "find (\<lambda>q. \<not> file_exists e w q) (required_paths a) = None"
    using assms(1) by (simp add: find_None_iff)
  have "main e P a w = (Completed, fst (check_inputs e a w) @ t, w')"
    unfolding main_def check_inputs_cases using assms(2) F M by simp
  moreover have "Call_post_process (post_process_args a ?wv (outdir_of a) (tmpdir_of e a)
               (sample_name_of (FASTQ a)) lib) \<in> set (fst (check_inputs e a w) @ t)"
    using C by simp
  moreover have "fst (genotype_check
                  (load_obj e (abspath e (outdir_of a) @ ''/OptimiR_lib/pickle/lib_infos.pkl'') w1)
                  (sample_name_of (FASTQ a))) \<noteq> []
            \<longrightarrow> Print (sample_mismatch_warning (sample_name_of (FASTQ a))) \<in> set (fst (check_inputs e a w) @ t)"
    using library_preparation_warning[OF L] S by auto
  ultimately show ?thesis by blast
qed

lemma trim_stage_invoked:
  assumes "\<not> path_exists e w' (trimmed_file tmpdir s) \<or> TRIM_AGAIN a"
  shows "trim_stage e a s tmpdir w' =
     (case trimming e (FASTQ a) s (tmpdir @ ''/0_Trimming'') (CUTADAPT a) (ADAPT3 a) (ADAPT5 a)
             (READMIN a) (READMAX a) (BQTHRESH a)
             (shell e (''mkdir -p '' @ tmpdir @ ''/0_Trimming'') w') of
        (Inl msg, w2) \<Rightarrow>
          ([Shell (''mkdir -p '' @ tmpdir @ ''/0_Trimming''), Call_trimming s], w2, Inl msg)
      | (Inr u, w2) \<Rightarrow>
          ([Shell (''mkdir -p '' @ tmpdir @ ''/0_Trimming''), Call_trimming s,
            Progress ''trim'' (VERBOSE a)], w2, Inr ()))"
  using assms unfolding trim_stage_def Let_def
  by (auto split: prod.splits sum.splits)

lemma main_after_trimming:
  assumes "\<forall>p\<in>set (required_paths a). file_exists e w p" and "OUTDIR a \<noteq> []"
    and L: "library_preparation e a (outdir_of a) (sample_name_of (FASTQ a))
              (start_world e (outdir_of a) (tmpdir_of e a) w) = (t1, w1, Inr lib)"
    and T: "trim_stage e a (sample_name_of (FASTQ a)) (tmpdir_of e a) w1 = (t2, w2, r)"
  shows "case r of
           Inl msg \<Rightarrow>
             main e P a w =
               (Exit 3,
                fst (check_inputs e a w) @
                [Shell (''mkdir -p '' @ outdir_of a), Shell (''mkdir -p '' @ tmpdir_of e a),
                 Progress ''header'' (VERBOSE a)] @ t1 @ t2 @ [Print (os_pipe_message msg)],
                w2)
         | Inr u \<Rightarrow>
             (\<exists>rest. trace_of (main e P a w) =
                fst (check_inputs e a w) @
                [Shell (''mkdir -p '' @ outdir_of a), Shell (''mkdir -p '' @ tmpdir_of e a),
                 Progress ''header'' (VERBOSE a)] @ t1 @ t2 @
                fst (collapse_stage e a (sample_name_of (FASTQ a)) (tmpdir_of e a) w2) @ rest)"
proof -
  have F: "find (\<lambda>q. \<not> file_exists e w q) (required_paths a) = None"
    using assms(1) by (simp add: find_None_iff)
  show ?thesis
  proof (cases r)
    case (Inl msg)
    then show ?thesis
      unfolding main_def check_inputs_cases main_process_def Let_def start_world_fold
      using F assms(2) by (simp add: and_then_def L T)
  next
    case (Inr u)
    obtain t3 w3 r3 where C: "collapse_stage e a (sample_name_of (FASTQ a)) (tmpdir_of e a) w2 = (t3, w3, r3)"
      by (metis prod.exhaust)
    show ?thesis
      unfolding main_def check_inputs_cases main_process_def Let_def start_world_fold trace_of_def
      using F assms(2) Inr
      by (simp add: and_then_def L T C split: prod.splits sum.splits)
  qed
qed










text \<open>The sample environment, evaluated.\<close>

lemma example_env_simps:
  "file_exists example_env w p \<longleftrightarrow> p \<in> set w"
  "path_exists example_env w p \<longleftrightarrow> p \<in> set w"
  "abspath example_env p = ''/work/'' @ p"
  "shell example_env cmd w = w"
  "prepare_library example_env b v m h g d f i l pk w = (Inr (), w)"
  "load_obj example_env p w =
     \<lparr> VCF_AVAILABLE = True, GENO_AVAILABLE = True, sample_list = [''sampleA.fq'', ''sampleB.fq''],
       fasta_hash = ''f'', vcf_hash = ''v'' \<rparr>"
  "trimming example_env fq s dt c a3 a5 mn mx bq w = (Inr (), (dt @ ''/'' @ s @ ''.trimmed.fq'') # w)"
  "collapsing example_env s dc dt w = (Inr 0, w)"
  "mapping example_env dm fq s bw sl i pth sm w = (Inr (), w)"
  "post_process_main example_env pa ct w = (Inr (), w)"
  by (simp_all add: example_env_def)

lemma example_args_simps:
  "FASTQ example_args = ''/data/sampleB.fq.gz''"
  "OUTDIR example_args = ''./OptimiR/''"
  "VCF example_args = Some ''/data/geno.vcf''"
  "MATURES example_args = ''/opt/optimir/resources/fasta/hsa_matures_miRBase_v21.fa''"
  "HAIRPINS example_args = ''/opt/optimir/resources/fasta/hsa_hairpins_miRBase_v21.fa''"
  "GFF3 example_args = ''/opt/optimir/resources/coordinates/hsa_miRBase_v21.gff3''"
  "\<not> TRIM_AGAIN example_args"
  "\<not> WRITE_VCF example_args"
  by (simp_all add: example_args_def default_args_def)

lemma example_names:
  "sample_name_of ''/data/sampleB.fq.gz'' = ''sampleB''"
  "outdir_of example_args = ''./OptimiR''"
  "tmpdir_of example_env example_args = ''/work/./OptimiR/OptimiR_tmp''"
  by (simp_all add: sample_name_of_def basename_def outdir_of_def tmpdir_of_def
        example_args_simps example_env_simps)

lemma example_inputs_exist:
  "\<forall>p\<in>set (required_paths example_args). file_exists example_env example_world p"
  "\<forall>p\<in>set (required_paths example_args). file_exists example_env (x # example_world) p"
  by (simp_all add: required_paths_def example_args_simps example_env_simps example_world_def)

lemma example_outdir: "OUTDIR example_args \<noteq> []"
  by (simp add: example_args_simps)

lemma example_never_raises: "never_raises example_env" "never_raises example_env_no_vcf"
  by (simp_all add: never_raises_def example_env_no_vcf_def example_env_def)







subsection \<open>Input errors\<close>

text \<open>
  Claim C8. When a required input path (the VCF when one is given, the mature fasta,
  the hairpin fasta, the coordinate file, the reads file) does not exist, the run ends
  with exit status 4 and with nothing done: the trace holds only the optional no-VCF
  warning and the error message naming the first missing path in check order, no shell
  command and no stage call, and the world is unchanged. Status 4 is returned in no
  other case (a failing stage gives status 3).
\<close>

theorem missing_input_exits_before_processing:
  "(fst (main e optimiR_path a w) = Exit 4 \<longleftrightarrow>
      (\<exists>p\<in>set (required_paths a). \<not> file_exists e w p)) \<and>
   (\<forall>q. find (\<lambda>p. \<not> file_exists e w p) (required_paths a) = Some q \<longrightarrow>
      main e optimiR_path a w =
        (Exit 4,
         (if VCF a = None \<and> WRITE_VCF a then [Print no_vcf_warning] else []) @
         [Print (''ERROR during library preparation: file '' @ q @
                 '' does not exists. Check input filename and try again.\<newline>'')],
         w))"
proof -
  have A: "fst (main e optimiR_path a w) = Exit 4 \<longleftrightarrow>
      (\<exists>p\<in>set (required_paths a). \<not> file_exists e w p)"
    unfolding main_def check_inputs_cases
    by (auto simp: find_None_iff find_Some_iff split: option.splits prod.splits sum.splits)
  have B: "main e optimiR_path a w =
        (Exit 4,
         (if VCF a = None \<and> WRITE_VCF a then [Print no_vcf_warning] else []) @
         [Print (''ERROR during library preparation: file '' @ q @
                 '' does not exists. Check input filename and try again.\<newline>'')],
         w)"
    if "find (\<lambda>p. \<not> file_exists e w p) (required_paths a) = Some q" for q
    unfolding main_def check_inputs_cases using that
    by (simp add: input_error_message_def)
  from A B show ?thesis by blast
qed

theorem missing_input_exits_before_processing_witness:
  "main example_env ''/opt/optimir'' example_args (tl example_world) =
     (Exit 4,
      [Print ''ERROR during library preparation: file /data/sampleB.fq.gz does not exists. Check input filename and try again.\<newline>''],
      tl example_world) \<and>
   fst (main example_env ''/opt/optimir'' example_args example_world) \<noteq> Exit 4"
proof -
  have f: "find (\<lambda>p. \<not> file_exists example_env (tl example_world) p) (required_paths example_args)
             = Some ''/data/sampleB.fq.gz''"
    by (simp add: required_paths_def example_args_def default_args_def example_env_def
          example_world_def)
  have g: "\<not> (\<exists>p\<in>set (required_paths example_args). \<not> file_exists example_env example_world p)"
    by (simp add: required_paths_def example_args_def default_args_def example_env_def
          example_world_def)
  have v: "VCF example_args \<noteq> None"
    by (simp add: example_args_def)
  show ?thesis
    using missing_input_exits_before_processing[of example_env "''/opt/optimir''" example_args "tl example_world"]
      missing_input_exits_before_processing[of example_env "''/opt/optimir''" example_args example_world]
      f g v
    by simp
qed

subsection \<open>Adapter trimming\<close>

text \<open>
  Claim C9. The trimming stage calls \<open>trimming\<close> if and only if the sample's
  trimmed file does not exist or \<open>--trimAgain\<close> is set. When it does, the stage
  creates the trimming directory and applies \<open>trimming\<close> to the reads file, and its
  result is the world and the error or success that \<open>trimming\<close> returns. Otherwise
  the stage issues no command, makes no call and leaves the world as it is, so the
  trimmed file of an earlier run is what collapsing reads. For a whole run whose inputs
  exist: when library preparation has succeeded and left the world \<open>w1\<close>, the trace
  of \<open>main\<close> holds a trimming call exactly under that condition on \<open>w1\<close>; an
  error of the trimming stage ends the run with status 3 in the world trimming left, and
  after a successful trimming stage collapsing runs in the world that stage left. When
  library preparation raised, trimming is never called.
\<close>

theorem trimming_invoked_iff_needed:
  assumes "\<forall>p\<in>set (required_paths a). file_exists e w p" and "OUTDIR a \<noteq> []"
  shows
  "((\<exists>x. Call_trimming x \<in> set (fst (trim_stage e a s tmpdir w'))) \<longleftrightarrow>
      \<not> path_exists e w' (trimmed_file tmpdir s) \<or> TRIM_AGAIN a) \<and>
   (path_exists e w' (trimmed_file tmpdir s) \<and> \<not> TRIM_AGAIN a \<longrightarrow>
      trim_stage e a s tmpdir w' = ([Progress ''trim'' (VERBOSE a)], w', Inr ())) \<and>
   (\<not> path_exists e w' (trimmed_file tmpdir s) \<or> TRIM_AGAIN a \<longrightarrow>
      trim_stage e a s tmpdir w' =
        (case trimming e (FASTQ a) s (tmpdir @ ''/0_Trimming'') (CUTADAPT a) (ADAPT3 a) (ADAPT5 a)
                (READMIN a) (READMAX a) (BQTHRESH a)
                (shell e (''mkdir -p '' @ tmpdir @ ''/0_Trimming'') w') of
           (Inl msg, w2) \<Rightarrow>
             ([Shell (''mkdir -p '' @ tmpdir @ ''/0_Trimming''), Call_trimming s], w2, Inl msg)
         | (Inr u, w2) \<Rightarrow>
             ([Shell (''mkdir -p '' @ tmpdir @ ''/0_Trimming''), Call_trimming s,
               Progress ''trim'' (VERBOSE a)], w2, Inr ()))) \<and>
   (case library_preparation e a (outdir_of a) (sample_name_of (FASTQ a))
           (start_world e (outdir_of a) (tmpdir_of e a) w) of
      (t1, w1, Inr lib) \<Rightarrow>
        ((\<exists>x. Call_trimming x \<in> set (trace_of (main e optimiR_path a w))) \<longleftrightarrow>
           \<not> path_exists e w1 (trimmed_file (tmpdir_of e a) (sample_name_of (FASTQ a))) \<or>
           TRIM_AGAIN a) \<and>
        (case trim_stage e a (sample_name_of (FASTQ a)) (tmpdir_of e a) w1 of
           (t2, w2, Inl msg) \<Rightarrow>
             main e optimiR_path a w =
               (Exit 3,
                fst (check_inputs e a w) @
                [Shell (''mkdir -p '' @ outdir_of a), Shell (''mkdir -p '' @ tmpdir_of e a),
                 Progress ''header'' (VERBOSE a)] @ t1 @ t2 @ [Print (os_pipe_message msg)],
                w2)
         | (t2, w2, Inr u) \<Rightarrow>
             (\<exists>rest. trace_of (main e optimiR_path a w) =
                fst (check_inputs e a w) @
                [Shell (''mkdir -p '' @ outdir_of a), Shell (''mkdir -p '' @ tmpdir_of e a),
                 Progress ''header'' (VERBOSE a)] @ t1 @ t2 @
                fst (collapse_stage e a (sample_name_of (FASTQ a)) (tmpdir_of e a) w2) @ rest))
    | (t1, w1, Inl msg) \<Rightarrow>
        \<not> (\<exists>x. Call_trimming x \<in> set (trace_of (main e optimiR_path a w))))"
proof -
  let ?wv = "if VCF a = None then False else WRITE_VCF a"
  let ?mp = "main_process e optimiR_path a ?wv (outdir_of a) (tmpdir_of e a) w"
  have A: "(\<exists>x. Call_trimming x \<in> set (fst (trim_stage e a s tmpdir w'))) \<longleftrightarrow>
      \<not> path_exists e w' (trimmed_file tmpdir s) \<or> TRIM_AGAIN a"
    by (simp add: trim_stage_calls)
  have B: "path_exists e w' (trimmed_file tmpdir s) \<and> \<not> TRIM_AGAIN a \<longrightarrow>
      trim_stage e a s tmpdir w' = ([Progress ''trim'' (VERBOSE a)], w', Inr ())"
    by (simp add: trim_stage_def trimmed_file_def)
  note B' = trim_stage_invoked[of e w' tmpdir s a]
  have tr: "Call_trimming x \<in> set (trace_of (main e optimiR_path a w)) \<longleftrightarrow>
              Call_trimming x \<in> set (fst ?mp)" for x
    using main_trace_ok[OF assms, of "Call_trimming x" optimiR_path]
    by (auto dest: check_inputs_prints)
  have C: "(\<exists>x. Call_trimming x \<in> set (trace_of (main e optimiR_path a w))) \<longleftrightarrow>
           \<not> path_exists e w1 (trimmed_file (tmpdir_of e a) (sample_name_of (FASTQ a))) \<or>
           TRIM_AGAIN a"
    if "library_preparation e a (outdir_of a) (sample_name_of (FASTQ a))
           (start_world e (outdir_of a) (tmpdir_of e a) w) = (t1, w1, Inr lib)" for t1 w1 lib
    unfolding tr main_process_trimming[OF that] by blast
  have D: "\<not> (\<exists>x. Call_trimming x \<in> set (trace_of (main e optimiR_path a w)))"
    if "library_preparation e a (outdir_of a) (sample_name_of (FASTQ a))
           (start_world e (outdir_of a) (tmpdir_of e a) w) = (t1, w1, Inl msg)" for t1 w1 msg
  proof -
    have "Call_trimming x \<notin> set t1" for x
      using library_preparation_calls(2)[of x e a "outdir_of a" "sample_name_of (FASTQ a)"
          "start_world e (outdir_of a) (tmpdir_of e a) w"] that by simp
    then show ?thesis
      unfolding tr main_process_def Let_def start_world_fold
      by (simp add: in_and_then that)
  qed
  have E: "case trim_stage e a (sample_name_of (FASTQ a)) (tmpdir_of e a) w1 of
           (t2, w2, Inl msg) \<Rightarrow>
             main e optimiR_path a w =
               (Exit 3,
                fst (check_inputs e a w) @
                [Shell (''mkdir -p '' @ outdir_of a), Shell (''mkdir -p '' @ tmpdir_of e a),
                 Progress ''header'' (VERBOSE a)] @ t1 @ t2 @ [Print (os_pipe_message msg)],
                w2)
         | (t2, w2, Inr u) \<Rightarrow>
             (\<exists>rest. trace_of (main e optimiR_path a w) =
                fst (check_inputs e a w) @
                [Shell (''mkdir -p '' @ outdir_of a), Shell (''mkdir -p '' @ tmpdir_of e a),
                 Progress ''header'' (VERBOSE a)] @ t1 @ t2 @
                fst (collapse_stage e a (sample_name_of (FASTQ a)) (tmpdir_of e a) w2) @ rest)"
    if L: "library_preparation e a (outdir_of a) (sample_name_of (FASTQ a))
           (start_world e (outdir_of a) (tmpdir_of e a) w) = (t1, w1, Inr lib)" for t1 w1 lib
  proof -
    obtain t2 w2 r where T:
      "trim_stage e a (sample_name_of (FASTQ a)) (tmpdir_of e a) w1 = (t2, w2, r)"
      by (metis prod.exhaust)
    from main_after_trimming[OF assms L T, of optimiR_path] show ?thesis
      by (simp add: T split: sum.splits)
  qed
  have CE: "case library_preparation e a (outdir_of a) (sample_name_of (FASTQ a))
           (start_world e (outdir_of a) (tmpdir_of e a) w) of
      (t1, w1, Inr lib) \<Rightarrow>
        ((\<exists>x. Call_trimming x \<in> set (trace_of (main e optimiR_path a w))) \<longleftrightarrow>
           \<not> path_exists e w1 (trimmed_file (tmpdir_of e a) (sample_name_of (FASTQ a))) \<or>
           TRIM_AGAIN a) \<and>
        (case trim_stage e a (sample_name_of (FASTQ a)) (tmpdir_of e a) w1 of
           (t2, w2, Inl msg) \<Rightarrow>
             main e optimiR_path a w =
               (Exit 3,
                fst (check_inputs e a w) @
                [Shell (''mkdir -p '' @ outdir_of a), Shell (''mkdir -p '' @ tmpdir_of e a),
                 Progress ''header'' (VERBOSE a)] @ t1 @ t2 @ [Print (os_pipe_message msg)],
                w2)
         | (t2, w2, Inr u) \<Rightarrow>
             (\<exists>rest. trace_of (main e optimiR_path a w) =
                fst (check_inputs e a w) @
                [Shell (''mkdir -p '' @ outdir_of a), Shell (''mkdir -p '' @ tmpdir_of e a),
                 Progress ''header'' (VERBOSE a)] @ t1 @ t2 @
                fst (collapse_stage e a (sample_name_of (FASTQ a)) (tmpdir_of e a) w2) @ rest))
    | (t1, w1, Inl msg) \<Rightarrow>
        \<not> (\<exists>x. Call_trimming x \<in> set (trace_of (main e optimiR_path a w)))"
  proof -
    obtain t1 w1 r1 where L: "library_preparation e a (outdir_of a) (sample_name_of (FASTQ a))
           (start_world e (outdir_of a) (tmpdir_of e a) w) = (t1, w1, r1)"
      by (metis prod.exhaust)
    show ?thesis
    proof (cases r1)
      case (Inl msg)
      with L D[of t1 w1 msg] show ?thesis by simp
    next
      case (Inr lib)
      with L C[of t1 w1 lib] E[of t1 w1 lib] show ?thesis by simp
    qed
  qed
  from A B B' CE show ?thesis by blast
qed

theorem trimming_invoked_iff_needed_witness:
  "(\<exists>x. Call_trimming x \<in> set (trace_of (main example_env ''/opt/optimir'' example_args example_world))) \<and>
   \<not> (\<exists>x. Call_trimming x \<in> set (trace_of (main example_env ''/opt/optimir'' example_args
          (''/work/./OptimiR/OptimiR_tmp/0_Trimming/sampleB.trimmed.fq'' # example_world)))) \<and>
   trim_stage example_env example_args ''sampleB'' ''/work/./OptimiR/OptimiR_tmp'' example_world =
     ([Shell ''mkdir -p /work/./OptimiR/OptimiR_tmp/0_Trimming'', Call_trimming ''sampleB'',
       Progress ''trim'' True],
      ''/work/./OptimiR/OptimiR_tmp/0_Trimming/sampleB.trimmed.fq'' # example_world, Inr ()) \<and>
   trim_stage example_env example_args ''sampleB'' ''/work/./OptimiR/OptimiR_tmp''
       (''/work/./OptimiR/OptimiR_tmp/0_Trimming/sampleB.trimmed.fq'' # example_world) =
     ([Progress ''trim'' True],
      ''/work/./OptimiR/OptimiR_tmp/0_Trimming/sampleB.trimmed.fq'' # example_world, Inr ())"
proof -
  have v: "VERBOSE example_args" "FASTQ example_args = ''/data/sampleB.fq.gz''"
    by (simp_all add: example_args_def default_args_def)
  have 1: "\<exists>x. Call_trimming x \<in> set (trace_of (main example_env ''/opt/optimir'' example_args example_world))"
    using trimming_invoked_iff_needed[OF example_inputs_exist(1) example_outdir,
        where s="[]" and tmpdir="[]" and w'="[]" and optimiR_path="''/opt/optimir''"]
    by (simp add: example_names example_args_simps example_env_simps library_preparation_def
          Let_def genotype_check_def start_world_def trimmed_file_def example_world_def
          split: prod.splits sum.splits)
  have 2: "\<not> (\<exists>x. Call_trimming x \<in> set (trace_of (main example_env ''/opt/optimir'' example_args
          (''/work/./OptimiR/OptimiR_tmp/0_Trimming/sampleB.trimmed.fq'' # example_world))))"
    using trimming_invoked_iff_needed[OF example_inputs_exist(2) example_outdir,
        where s="[]" and tmpdir="[]" and w'="[]" and optimiR_path="''/opt/optimir''"]
    by (simp add: example_names example_args_simps example_env_simps library_preparation_def
          Let_def genotype_check_def start_world_def trimmed_file_def
          split: prod.splits sum.splits)
  have 3: "trim_stage example_env example_args ''sampleB'' ''/work/./OptimiR/OptimiR_tmp'' example_world =
     ([Shell ''mkdir -p /work/./OptimiR/OptimiR_tmp/0_Trimming'', Call_trimming ''sampleB'',
       Progress ''trim'' True],
      ''/work/./OptimiR/OptimiR_tmp/0_Trimming/sampleB.trimmed.fq'' # example_world, Inr ())"
    using trimming_invoked_iff_needed[OF example_inputs_exist(1) example_outdir,
        where s="''sampleB''" and tmpdir="''/work/./OptimiR/OptimiR_tmp''" and w'=example_world,
        THEN conjunct2, THEN conjunct2, THEN conjunct1]
    by (simp add: v example_args_simps example_env_simps trimmed_file_def example_world_def)
  have 4: "trim_stage example_env example_args ''sampleB'' ''/work/./OptimiR/OptimiR_tmp''
       (''/work/./OptimiR/OptimiR_tmp/0_Trimming/sampleB.trimmed.fq'' # example_world) =
     ([Progress ''trim'' True],
      ''/work/./OptimiR/OptimiR_tmp/0_Trimming/sampleB.trimmed.fq'' # example_world, Inr ())"
    using trimming_invoked_iff_needed[OF example_inputs_exist(1) example_outdir,
        where s="''sampleB''" and tmpdir="''/work/./OptimiR/OptimiR_tmp''"
          and w'="''/work/./OptimiR/OptimiR_tmp/0_Trimming/sampleB.trimmed.fq'' # example_world",
        THEN conjunct2, THEN conjunct1]
    by (simp add: v example_args_simps example_env_simps trimmed_file_def)
  from 1 2 3 4 show ?thesis by blast
qed

subsection \<open>Missing genotypes\<close>




subsection \<open>The sample name\<close>

text \<open>
  Claim C10. The sample name is the basename of the reads file cut at its first dot
  (\<open>sample.fq.gz\<close> gives \<open>sample\<close>), so it never contains a dot and no name with
  a dot equals it. It is the name passed to trimming, collapsing, mapping and
  post-processing. Post-processing gets \<open>GENO_AVAILABLE = True\<close> only if the library
  reports genotypes and lists exactly this name; when every listed name contains a dot,
  the flag is false.
\<close>

theorem sample_name_is_basename_up_to_first_dot:
  "sample_name_of fq = takeWhile (\<lambda>c. c \<noteq> CHR ''.'') (basename fq) \<and>
   sample_name_of ''sample.fq.gz'' = ''sample'' \<and>
   CHR ''.'' \<notin> set (sample_name_of fq) \<and>
   (\<forall>n. CHR ''.'' \<in> set n \<longrightarrow> n \<noteq> sample_name_of fq) \<and>
   (\<forall>x. Call_trimming x \<in> set (trace_of (main e optimiR_path a w)) \<or>
        Call_collapsing x \<in> set (trace_of (main e optimiR_path a w)) \<or>
        Call_mapping x \<in> set (trace_of (main e optimiR_path a w))
        \<longrightarrow> x = sample_name_of (FASTQ a)) \<and>
   (\<forall>pa. Call_post_process pa \<in> set (trace_of (main e optimiR_path a w)) \<longrightarrow>
      pp_sample_name pa = sample_name_of (FASTQ a) \<and>
      (pp_GENO_AVAILABLE pa \<longrightarrow>
         (\<exists>p w'. GENO_AVAILABLE (load_obj e p w') \<and>
                 sample_name_of (FASTQ a) \<in> set (sample_list (load_obj e p w'))))) \<and>
   ((\<forall>p w'. \<forall>n\<in>set (sample_list (load_obj e p w')). CHR ''.'' \<in> set n) \<longrightarrow>
      (\<forall>pa. Call_post_process pa \<in> set (trace_of (main e optimiR_path a w)) \<longrightarrow>
         \<not> pp_GENO_AVAILABLE pa))"
proof -
  let ?t = "trace_of (main e optimiR_path a w)"
  have A: "sample_name_of ''sample.fq.gz'' = ''sample''"
    by (simp add: sample_name_of_def basename_def)
  have B: "CHR ''.'' \<in> set n \<longrightarrow> n \<noteq> sample_name_of fq" for n
    using sample_name_of_no_dot[of fq] by auto
  have C: "x = sample_name_of (FASTQ a)"
    if "Call_trimming x \<in> set ?t \<or> Call_collapsing x \<in> set ?t \<or> Call_mapping x \<in> set ?t" for x
  proof -
    let ?mp = "main_process e optimiR_path a (if VCF a = None then False else WRITE_VCF a)
                 (outdir_of a) (tmpdir_of e a) w"
    from that consider "Call_trimming x \<in> set ?t" | "Call_collapsing x \<in> set ?t"
      | "Call_mapping x \<in> set ?t" by blast
    then show ?thesis
    proof cases
      case 1
      from main_call_in_process[OF 1] have "Call_trimming x \<in> set (fst ?mp)" by simp
      then show ?thesis by (rule main_process_stage_names(1))
    next
      case 2
      from main_call_in_process[OF 2] have "Call_collapsing x \<in> set (fst ?mp)" by simp
      then show ?thesis by (rule main_process_stage_names(2))
    next
      case 3
      from main_call_in_process[OF 3] have "Call_mapping x \<in> set (fst ?mp)" by simp
      then show ?thesis by (rule main_process_stage_names(3))
    qed
  qed
  have D: "pp_sample_name pa = sample_name_of (FASTQ a) \<and>
      (pp_GENO_AVAILABLE pa \<longrightarrow>
         (\<exists>p w'. GENO_AVAILABLE (load_obj e p w') \<and>
                 sample_name_of (FASTQ a) \<in> set (sample_list (load_obj e p w'))))"
    if h: "Call_post_process pa \<in> set ?t" for pa
  proof -
    have "pp_sample_name pa = sample_name_of (FASTQ a)"
      using main_pp_call[OF h] by (auto simp: post_process_args_def)
    moreover obtain p w' where
      "pp_GENO_AVAILABLE pa = snd (genotype_check (load_obj e p w') (sample_name_of (FASTQ a)))"
      using main_pp_geno[OF h] by blast
    ultimately show ?thesis
      by (auto simp: genotype_check_def split: if_splits)
  qed
  have E: "\<not> pp_GENO_AVAILABLE pa"
    if "\<forall>p w'. \<forall>n\<in>set (sample_list (load_obj e p w')). CHR ''.'' \<in> set n"
      and "Call_post_process pa \<in> set ?t" for pa
    using D[OF that(2)] that(1) sample_name_of_no_dot[of "FASTQ a"] by blast
  show ?thesis
    using A B C D E sample_name_of_takeWhile[of fq] sample_name_of_no_dot[of fq]
    by (intro conjI allI impI) blast+
qed

theorem sample_name_is_basename_up_to_first_dot_witness:
  "sample_name_of ''/data/sampleB.fq.gz'' = ''sampleB'' \<and>
   (\<exists>t w' pa. main example_env ''/opt/optimir'' example_args example_world = (Completed, t, w') \<and>
      Call_post_process pa \<in> set t \<and> pp_sample_name pa = ''sampleB'' \<and> \<not> pp_GENO_AVAILABLE pa)"
proof -
  obtain t w' pa where
    m: "main example_env ''/opt/optimir'' example_args example_world = (Completed, t, w')"
    and c: "Call_post_process pa \<in> set t"
    using main_completes[OF example_inputs_exist(1) example_outdir example_never_raises(1),
        of "''/opt/optimir''"] by blast
  have d: "\<forall>p w'. \<forall>n\<in>set (sample_list (load_obj example_env p w')). CHR ''.'' \<in> set n"
    by (simp add: example_env_simps)
  have "Call_post_process pa \<in> set (trace_of (main example_env ''/opt/optimir'' example_args example_world))"
    using m c by (simp add: trace_of_def)
  with d have "pp_sample_name pa = ''sampleB'' \<and> \<not> pp_GENO_AVAILABLE pa"
    using sample_name_is_basename_up_to_first_dot[of "''/data/sampleB.fq.gz''" example_env
        "''/opt/optimir''" example_args example_world]
    by (simp add: example_args_simps example_names)
  with m c show ?thesis by (auto simp: example_names)
qed

section \<open>Properties of the post-alignment rules\<close>

subsection \<open>Auxiliary facts\<close>

lemma weights_split:
  "sum_list (map (mismatch_weight window w5) ps) =
     int (length (filter (\<lambda>p. \<not> p < window) ps)) +
     w5 * int (length (filter (\<lambda>p. p < window) ps))"
  by (induction ps) (auto simp: mismatch_weight_def algebra_simps)

lemma weights_mono:
  "w \<le> w' \<Longrightarrow> sum_list (map (mismatch_weight window w) ps)
                  \<le> sum_list (map (mismatch_weight window w') ps)"
  by (induction ps) (auto simp: mismatch_weight_def)

lemma weights_strict:
  "w < w' \<Longrightarrow> \<exists>p\<in>set ps. p < window \<Longrightarrow>
     sum_list (map (mismatch_weight window w) ps) < sum_list (map (mismatch_weight window w') ps)"
proof (induction ps)
  case Nil
  then show ?case by simp
next
  case (Cons p ps)
  have le: "sum_list (map (mismatch_weight window w) ps)
              \<le> sum_list (map (mismatch_weight window w') ps)"
    using Cons.prems(1) by (intro weights_mono) simp
  show ?case
  proof (cases "p < window")
    case True
    then have "mismatch_weight window w p = w" "mismatch_weight window w' p = w'"
      by (simp_all add: mismatch_weight_def)
    then show ?thesis using le Cons.prems(1) by simp
  next
    case False
    then have "\<exists>q\<in>set ps. q < window" using Cons.prems(2) by auto
    moreover from False have "mismatch_weight window w p = 1" "mismatch_weight window w' p = 1"
      by (simp_all add: mismatch_weight_def)
    ultimately show ?thesis using Cons.IH[OF Cons.prems(1)] by simp
  qed
qed

lemma weights_outside:
  "\<forall>p\<in>set ps. \<not> p < window \<Longrightarrow>
     sum_list (map (mismatch_weight window w) ps) = int (length ps)"
  by (induction ps) (auto simp: mismatch_weight_def)

lemma example_rates:
  "inconsistent_rate (example_counts 100 5) example_site example_scored = Some (5 / 100)"
  "inconsistent_rate (example_counts 200 2) example_site example_scored = Some (1 / 100)"
  "classified_count (example_counts 100 5) example_site example_scored = 100"
  "inconsistent_count (example_counts 100 5) example_site example_scored = 5"
  "classified_count (example_counts 200 2) example_site example_scored = 200"
  "inconsistent_count (example_counts 200 2) example_site example_scored = 2"
  by (simp_all add: inconsistent_rate_def classified_count_def inconsistent_count_def at_site_def
        example_counts_def example_site_def example_scored_def)

subsection \<open>Score and discard\<close>

text \<open>
  Claim C2. The score of an alignment is the number of its mismatches outside the
  5' window plus the weight times the number of its mismatches inside the window; an
  alignment is discarded exactly when its score exceeds the threshold; the surviving
  alignments are those of the input whose score is at most the threshold, and dropping
  one alignment leaves the alignments before and after it as they would otherwise be.
  The command line's defaults are weight 4 and threshold 9, and the driver hands both
  values unchanged to post-processing.
\<close>

theorem alignment_score_and_discard:
  "score window w5 a =
     int (length (filter (\<lambda>p. \<not> p < window) (ar_mismatches a))) +
     w5 * int (length (filter (\<lambda>p. p < window) (ar_mismatches a))) \<and>
   (discarded window w5 thr a \<longleftrightarrow> score window w5 a > thr) \<and>
   set (surviving window w5 thr as) = {b \<in> set as. score window w5 b \<le> thr} \<and>
   surviving window w5 thr (xs @ a # ys) =
     surviving window w5 thr xs @ (if score window w5 a > thr then [] else [a]) @
     surviving window w5 thr ys \<and>
   WEIGHT5 (default_args optimiR_path fq) = 4 \<and>
   SCORE_THRESH (default_args optimiR_path fq) = 9 \<and>
   (\<forall>pa. Call_post_process pa \<in> set (trace_of (main e optimiR_path args w)) \<longrightarrow>
      pp_WEIGHT5 pa = WEIGHT5 args \<and> pp_SCORE_THRESHOLD pa = SCORE_THRESH args)"
proof -
  have A: "score window w5 a =
     int (length (filter (\<lambda>p. \<not> p < window) (ar_mismatches a))) +
     w5 * int (length (filter (\<lambda>p. p < window) (ar_mismatches a)))"
    unfolding score_def by (rule weights_split)
  have B: "set (surviving window w5 thr as) = {b \<in> set as. score window w5 b \<le> thr}"
    by (auto simp: surviving_def discarded_def)
  have C: "surviving window w5 thr (xs @ a # ys) =
     surviving window w5 thr xs @ (if score window w5 a > thr then [] else [a]) @
     surviving window w5 thr ys"
    by (simp add: surviving_def discarded_def)
  have D: "pp_WEIGHT5 pa = WEIGHT5 args \<and> pp_SCORE_THRESHOLD pa = SCORE_THRESH args"
    if "Call_post_process pa \<in> set (trace_of (main e optimiR_path args w))" for pa
    using main_pp_call[OF that] by (auto simp: post_process_args_def)
  from A B C D show ?thesis
    by (simp add: discarded_def default_args_def)
qed

theorem alignment_score_and_discard_witness:
  "score 5 4 (example_alignment 7 [0, 2, 15]) = 9 \<and>
   score 5 4 (example_alignment 8 [0, 3, 4]) = 12 \<and>
   \<not> discarded 5 4 9 (example_alignment 7 [0, 2, 15]) \<and>
   discarded 5 4 9 (example_alignment 8 [0, 3, 4]) \<and>
   surviving 5 4 9 [example_alignment 8 [0, 3, 4], example_alignment 7 [0, 2, 15]] =
     [example_alignment 7 [0, 2, 15]]"
proof -
  have s1: "score 5 4 (example_alignment 7 [0, 2, 15]) = 9"
    using alignment_score_and_discard[THEN conjunct1, of 5 4 "example_alignment 7 [0, 2, 15]"]
    by (simp add: example_alignment_def)
  have s2: "score 5 4 (example_alignment 8 [0, 3, 4]) = 12"
    using alignment_score_and_discard[THEN conjunct1, of 5 4 "example_alignment 8 [0, 3, 4]"]
    by (simp add: example_alignment_def)
  show ?thesis
    by (simp add: s1 s2 surviving_def discarded_def)
qed

subsection \<open>The score as a function of the weight\<close>

text \<open>
  Claim C5. A larger 5' weight never gives a smaller score; with a mismatch inside the
  window a strictly larger weight gives a strictly larger score; and an alignment with
  no mismatch inside the window has the same score for every weight, namely its
  number of mismatches.
\<close>

theorem score_monotone_in_weight:
  "(w \<le> w' \<longrightarrow> score window w a \<le> score window w' a) \<and>
   ((\<exists>p\<in>set (ar_mismatches a). p < window) \<and> w < w' \<longrightarrow>
      score window w a < score window w' a) \<and>
   ((\<forall>p\<in>set (ar_mismatches a). \<not> p < window) \<longrightarrow>
      score window w a = score window w' a \<and> score window w a = int (length (ar_mismatches a)))"
  unfolding score_def
  using weights_mono[of w w' window "ar_mismatches a"]
    weights_strict[of w w' "ar_mismatches a" window]
    weights_outside[of "ar_mismatches a" window w]
    weights_outside[of "ar_mismatches a" window w']
  by auto

theorem score_monotone_in_weight_witness:
  "score 5 4 (example_alignment 7 [0, 2, 15]) < score 5 5 (example_alignment 7 [0, 2, 15]) \<and>
   score 5 4 (example_alignment 9 [5, 9]) = score 5 7 (example_alignment 9 [5, 9]) \<and>
   score 5 4 (example_alignment 9 [5, 9]) = 2"
  using score_monotone_in_weight[THEN conjunct2, THEN conjunct1,
      of "example_alignment 7 [0, 2, 15]" 5 4 5]
    score_monotone_in_weight[THEN conjunct2, THEN conjunct2,
      of "example_alignment 9 [5, 9]" 5 4 7]
  by (simp add: example_alignment_def)

subsection \<open>Flagging of variant sites\<close>

text \<open>
  Claim C4. A site is flagged highly suspicious exactly when it has an inconsistency
  rate (inconsistent counts over all classified counts at the site) and that rate is
  strictly greater than the threshold; a rate equal to the threshold is not flagged.
  The resolver reports a flag for the genotype-available sites only and returns the
  alignments unchanged. The command line's default threshold is 0.01, and the driver
  hands the threshold unchanged to post-processing.
\<close>

theorem suspicious_site_flag:
  "(highly_suspicious thr counts site sas \<longleftrightarrow>
      (\<exists>r. inconsistent_rate counts site sas = Some r \<and> r > thr)) \<and>
   (inconsistent_rate counts site sas = Some thr \<longrightarrow> \<not> highly_suspicious thr counts site sas) \<and>
   (classified_count counts site sas > 0 \<longrightarrow>
      (highly_suspicious thr counts site sas \<longleftrightarrow>
         of_nat (inconsistent_count counts site sas) / of_nat (classified_count counts site sas)
           > thr)) \<and>
   snd (resolve thr counts sites sas) = sas \<and>
   map fst (fst (resolve thr counts sites sas)) = filter vs_genotype_available sites \<and>
   (\<forall>s flag. (s, flag) \<in> set (fst (resolve thr counts sites sas)) \<longrightarrow>
      vs_genotype_available s \<and> flag = highly_suspicious thr counts s sas) \<and>
   INCONSISTENT_THRESHOLD (default_args optimiR_path fq) = 1 / 100 \<and>
   (\<forall>pa. Call_post_process pa \<in> set (trace_of (main e optimiR_path args w)) \<longrightarrow>
      pp_INCONSISTENT_THRESHOLD pa = INCONSISTENT_THRESHOLD args)"
proof -
  have A: "highly_suspicious thr counts site sas \<longleftrightarrow>
      (\<exists>r. inconsistent_rate counts site sas = Some r \<and> r > thr)"
    by (simp add: highly_suspicious_def split: option.splits)
  have B: "inconsistent_rate counts site sas = Some thr \<longrightarrow> \<not> highly_suspicious thr counts site sas"
    by (simp add: highly_suspicious_def)
  have C: "classified_count counts site sas > 0 \<longrightarrow>
      (highly_suspicious thr counts site sas \<longleftrightarrow>
         of_nat (inconsistent_count counts site sas) / of_nat (classified_count counts site sas)
           > thr)"
    by (simp add: highly_suspicious_def inconsistent_rate_def)
  have D: "snd (resolve thr counts sites sas) = sas"
    "map fst (fst (resolve thr counts sites sas)) = filter vs_genotype_available sites"
    "\<forall>s flag. (s, flag) \<in> set (fst (resolve thr counts sites sas)) \<longrightarrow>
      vs_genotype_available s \<and> flag = highly_suspicious thr counts s sas"
    by (auto simp: resolve_def comp_def)
  have E: "pp_INCONSISTENT_THRESHOLD pa = INCONSISTENT_THRESHOLD args"
    if "Call_post_process pa \<in> set (trace_of (main e optimiR_path args w))" for pa
    using main_pp_call[OF that] by (auto simp: post_process_args_def)
  have F: "INCONSISTENT_THRESHOLD (default_args optimiR_path fq) = 1 / 100"
    by (simp add: default_args_def)
  from A B C D E F show ?thesis by blast
qed

theorem suspicious_site_flag_witness:
  "highly_suspicious (1 / 100) (example_counts 100 5) example_site example_scored \<and>
   \<not> highly_suspicious (1 / 100) (example_counts 200 2) example_site example_scored \<and>
   resolve (1 / 100) (example_counts 100 5) [example_site] example_scored =
     ([(example_site, True)], example_scored)"
proof -
  have 1: "highly_suspicious (1 / 100) (example_counts 100 5) example_site example_scored"
    using suspicious_site_flag[THEN conjunct2, THEN conjunct2, THEN conjunct1,
        of "example_counts 100 5" example_site example_scored "1 / 100"]
    by (simp add: example_rates)
  have 2: "\<not> highly_suspicious (1 / 100) (example_counts 200 2) example_site example_scored"
    using suspicious_site_flag[THEN conjunct2, THEN conjunct1,
        of "example_counts 200 2" example_site example_scored "1 / 100"]
    by (simp add: example_rates)
  have 3: "resolve (1 / 100) (example_counts 100 5) [example_site] example_scored =
     ([(example_site, True)], example_scored)"
    using 1 by (simp add: resolve_def example_site_def)
  from 1 2 3 show ?thesis by blast
qed

end
